theory Spec2Isabelle
  imports Complex_Main
begin

section \<open>The pivot solver of the hinge generator\<close>

text \<open>
  The program \<^verbatim>\<open>hinge-solver.py\<close> consists of two functions: \<^verbatim>\<open>equations\<close>, the residual
  of four constraints on the two pivot points of a box and its lid, and
  \<^verbatim>\<open>solve_pivot_points\<close>, which hands that residual and a start vector to a root finder
  of a numerical library and unpacks what comes back.

  Python's floats are idealised as the reals of HOL: addition, subtraction,
  multiplication and squaring are exact, and \<open>tan\<close> is the real tangent. Everything
  proved below is therefore a statement about the arithmetic the code writes down, not
  about rounding, overflow or the special values of IEEE arithmetic.
\<close>

subsection \<open>Errors\<close>

text \<open>
  \<open>ValueError\<close> is what Python raises when a sequence is unpacked into the wrong number
  of names (\<^verbatim>\<open>x1, y1, x2, y2 = vars\<close>). \<open>SolverError\<close> stands for any exception that
  leaves the root finder, its own or one raised by the residual it calls back.
\<close>

datatype error = ValueError | SolverError

subsection \<open>The residual function\<close>

text \<open>\<^verbatim>\<open>np.radians\<close>: degrees to radians.\<close>

definition radians :: "real \<Rightarrow> real" where
  "radians deg = deg * pi / 180"

text \<open>
  \<^verbatim>\<open>equations(vars, h, w, d, alpha, g)\<close>. The unknowns arrive as a sequence and are
  unpacked into four names; the result is the list of the four residuals.
\<close>

fun equations :: "real list \<Rightarrow> real \<Rightarrow> real \<Rightarrow> real \<Rightarrow> real \<Rightarrow> real \<Rightarrow> error + real list" where
  "equations [x1, y1, x2, y2] h w d alpha g =
     (let alpha_rad = radians alpha;
          eq1 = x2 - (w - d);
          eq2 = y2 - h;
          eq3 = (x2 - x1)\<^sup>2 + (y2 - y1)\<^sup>2 - g\<^sup>2;
          eq4 = y1 - h + d * tan alpha_rad
      in Inr [eq1, eq2, eq3, eq4])"
| "equations _ h w d alpha g = Inl ValueError"

subsection \<open>The solve operation\<close>

text \<open>
  \<^verbatim>\<open>fsolve\<close> belongs to a numerical library, not to this program, so it is a parameter
  of the model: a function from a residual and a start vector to the final iterate, or
  to an error.
\<close>

type_synonym residual_fun = "real list \<Rightarrow> error + real list"
type_synonym root_finder = "residual_fun \<Rightarrow> real list \<Rightarrow> error + real list"

text \<open>\<^verbatim>\<open>x1, y1, x2, y2 = solution; return (x1, y1), (x2, y2)\<close>\<close>

fun unpack_solution :: "real list \<Rightarrow> error + ((real \<times> real) \<times> (real \<times> real))" where
  "unpack_solution [x1, y1, x2, y2] = Inr ((x1, y1), (x2, y2))"
| "unpack_solution _ = Inl ValueError"

definition solve_pivot_points ::
  "root_finder \<Rightarrow> real \<Rightarrow> real \<Rightarrow> real \<Rightarrow> real \<Rightarrow> real \<Rightarrow> error + ((real \<times> real) \<times> (real \<times> real))" where
  "solve_pivot_points fsolve h w d alpha g =
     (let initial_guess = [w / 2, h / 2, w - d, h] in
      case fsolve (\<lambda>vars. equations vars h w d alpha g) initial_guess of
        Inl e \<Rightarrow> Inl e
      | Inr solution \<Rightarrow> unpack_solution solution)"

subsection \<open>Vocabulary of the properties\<close>

text \<open>The \<open>i\<close>-th residual (counted from 0) at an unknown vector, when there is one.\<close>

definition residual :: "nat \<Rightarrow> real list \<Rightarrow> real \<Rightarrow> real \<Rightarrow> real \<Rightarrow> real \<Rightarrow> real \<Rightarrow> real option" where
  "residual i vars h w d alpha g =
     (case equations vars h w d alpha g of Inl e \<Rightarrow> None | Inr r \<Rightarrow> Some (r ! i))"

text \<open>A root of the system: the residual is the zero vector.\<close>

definition is_root :: "real list \<Rightarrow> real \<Rightarrow> real \<Rightarrow> real \<Rightarrow> real \<Rightarrow> real \<Rightarrow> bool" where
  "is_root vars h w d alpha g = (equations vars h w d alpha g = Inr [0, 0, 0, 0])"

text \<open>
  Convergence of a solve in the residual: every component of the residual at the final
  iterate is within the tolerance.
\<close>

definition converged :: "real \<Rightarrow> real list \<Rightarrow> real \<Rightarrow> real \<Rightarrow> real \<Rightarrow> real \<Rightarrow> real \<Rightarrow> bool" where
  "converged tol vars h w d alpha g =
     (case equations vars h w d alpha g of
        Inl e \<Rightarrow> False
      | Inr r \<Rightarrow> list_all (\<lambda>e. \<bar>e\<bar> \<le> tol) r)"

section \<open>Properties\<close>

subsection \<open>Helper facts\<close>


lemma radians_zero: "radians 0 = 0"
  by (simp add: radians_def)

lemma equations_four:
  "equations [x1, y1, x2, y2] h w d alpha g =
     Inr [x2 - (w - d), y2 - h, (x2 - x1)\<^sup>2 + (y2 - y1)\<^sup>2 - g\<^sup>2, y1 - h + d * tan (radians alpha)]"
  by (simp add: Let_def)

lemma equations_Inr_length:
  assumes "equations vars h w d alpha g = Inr r"
  shows "\<exists>x1 y1 x2 y2. vars = [x1, y1, x2, y2]"
  using assms by (cases "(vars, h, w, d, alpha, g)" rule: equations.cases) simp_all

lemma is_root_iff:
  "is_root [x1, y1, x2, y2] h w d alpha g \<longleftrightarrow>
     x2 = w - d \<and> y2 = h \<and> (x2 - x1)\<^sup>2 + (y2 - y1)\<^sup>2 = g\<^sup>2 \<and> y1 = h - d * tan (radians alpha)"
  unfolding is_root_def equations_four by auto



text \<open>
  A root exists exactly when the vertical offset of the box pivot fits into the gap.
  The example parameters of the program (\<open>h = 10\<close>, \<open>w = 15\<close>, \<open>d = 5\<close>,
  \<open>alpha = 30\<close>, \<open>g = 2\<close>) do not satisfy this: their system has no real root.
\<close>

lemma root_exists_iff:
  "(\<exists>vars. is_root vars h w d alpha g) \<longleftrightarrow> (d * tan (radians alpha))\<^sup>2 \<le> g\<^sup>2"
proof
  assume "\<exists>vars. is_root vars h w d alpha g"
  then obtain vars where r: "is_root vars h w d alpha g" ..
  then obtain x1 y1 x2 y2 where v: "vars = [x1, y1, x2, y2]"
    unfolding is_root_def using equations_Inr_length by blast
  from r have gap: "(x2 - x1)\<^sup>2 + (y2 - y1)\<^sup>2 = g\<^sup>2"
    and y2: "y2 = h" and y1: "y1 = h - d * tan (radians alpha)"
    unfolding v is_root_iff by blast+
  have "(y2 - y1)\<^sup>2 \<le> g\<^sup>2"
    using gap zero_le_power2 [of "x2 - x1"] by linarith
  then show "(d * tan (radians alpha))\<^sup>2 \<le> g\<^sup>2"
    by (simp add: y1 y2)
next
  assume le: "(d * tan (radians alpha))\<^sup>2 \<le> g\<^sup>2"
  define s where "s = sqrt (g\<^sup>2 - (d * tan (radians alpha))\<^sup>2)"
  have s2: "s\<^sup>2 = g\<^sup>2 - (d * tan (radians alpha))\<^sup>2"
    unfolding s_def using le by simp
  have "is_root [w - d - s, h - d * tan (radians alpha), w - d, h] h w d alpha g"
    unfolding is_root_iff using s2 by simp
  then show "\<exists>vars. is_root vars h w d alpha g" ..
qed

lemma reference_scenario_no_root: "\<not> (\<exists>vars. is_root vars 10 15 5 30 2)"
proof -
  have "radians 30 = pi / 6" by (simp add: radians_def)
  then have "tan (radians 30) = 1 / sqrt 3"
    by (simp only: tan_30)
  then have "(5 * tan (radians 30))\<^sup>2 = 25 / 3"
    by (simp add: power_mult_distrib power_divide)
  then show ?thesis
    unfolding root_exists_iff by simp
qed

subsection \<open>Properties of the residual function\<close>

text \<open>
  Claim C2. For every unknown vector \<open>(x1, y1, x2, y2)\<close> and every parameter tuple, the
  residual function returns exactly the four values \<open>x2 - (w - d)\<close>, \<open>y2 - h\<close>,
  \<open>(x2 - x1)\<^sup>2 + (y2 - y1)\<^sup>2 - g\<^sup>2\<close> and \<open>y1 - h + d * tan (alpha * pi / 180)\<close>, in that
  order.
\<close>

theorem equations_residual_formula:
  "equations [x1, y1, x2, y2] h w d alpha g =
     Inr [x2 - (w - d),
          y2 - h,
          (x2 - x1)\<^sup>2 + (y2 - y1)\<^sup>2 - g\<^sup>2,
          y1 - h + d * tan (alpha * pi / 180)]"
  by (simp add: Let_def radians_def)

text \<open>
  Claim C3, as stated, fails: the third equation references \<open>x1\<close>. With the example
  parameters, the start vector and the vector that differs from it only in \<open>x1 = 8\<close> have
  different residuals.
\<close>

theorem equations_x1_counterexample:
  "equations [15 / 2, 5, 10, 10] 10 15 5 30 2 \<noteq> equations [8, 5, 10, 10] 10 15 5 30 2"
  by (simp add: Let_def power2_eq_square)

text \<open>
  Claim C3, amended. Equations 1, 2 and 4 do not reference \<open>x1\<close>: two unknown vectors that
  differ only in \<open>x1\<close> have the same first, second and fourth residual. Equation 3 does
  reference it, through \<open>(x2 - x1)\<^sup>2\<close>, and the two residual vectors are equal exactly when
  the two values of \<open>x1\<close> are equal or are mirror images of each other about \<open>x2\<close>.
\<close>

theorem equations_x1_dependence:
  "residual 0 [x1', y1, x2, y2] h w d alpha g = residual 0 [x1, y1, x2, y2] h w d alpha g
   \<and> residual 1 [x1', y1, x2, y2] h w d alpha g = residual 1 [x1, y1, x2, y2] h w d alpha g
   \<and> residual 3 [x1', y1, x2, y2] h w d alpha g = residual 3 [x1, y1, x2, y2] h w d alpha g
   \<and> (equations [x1', y1, x2, y2] h w d alpha g = equations [x1, y1, x2, y2] h w d alpha g
        \<longleftrightarrow> x1' = x1 \<or> x1' = 2 * x2 - x1)"
proof -
  have "(x2 - x1')\<^sup>2 = (x2 - x1)\<^sup>2 \<longleftrightarrow> x1' = x1 \<or> x1' = 2 * x2 - x1"
    by (auto simp add: power2_eq_iff)
  then show ?thesis
    by (simp add: residual_def equations_four)
qed

text \<open>
  Claim C9. The residual is unchanged when the gap parameter is negated, for every
  unknown vector (of any length) and every parameter tuple; so the systems for \<open>g\<close> and
  for \<open>- g\<close> have the same roots.
\<close>

theorem equations_gap_sign_invariant:
  "equations vars h w d alpha (- g) = equations vars h w d alpha g
   \<and> (is_root vars h w d alpha (- g) \<longleftrightarrow> is_root vars h w d alpha g)"
proof -
  have "equations vars h w d alpha (- g) = equations vars h w d alpha g"
    by (cases "(vars, h, w, d, alpha, g)" rule: equations.cases) simp_all
  then show ?thesis by (simp add: is_root_def)
qed

text \<open>
  Claim C10. The third residual is unchanged when the two pivot points are swapped, and
  each of the other three depends on one unknown only: the first on \<open>x2\<close>, the second on
  \<open>y2\<close>, the fourth on \<open>y1\<close>.
\<close>

theorem equations_gap_symmetric_components:
  "residual 2 [x2, y2, x1, y1] h w d alpha g = residual 2 [x1, y1, x2, y2] h w d alpha g
   \<and> residual 0 [a, b, x2, c] h w d alpha g = residual 0 [a', b', x2, c'] h w d alpha g
   \<and> residual 1 [a, b, c, y2] h w d alpha g = residual 1 [a', b', c', y2] h w d alpha g
   \<and> residual 3 [a, y1, b, c] h w d alpha g = residual 3 [a', y1, b', c'] h w d alpha g"
  by (simp add: residual_def equations_four power2_commute)

subsection \<open>Properties of the solve operation\<close>

text \<open>
  Claim C7. For every input, the root finder is started at \<open>(w / 2, h / 2, w - d, h)\<close>: a
  root finder that hands back its start vector makes \<open>solve_pivot_points\<close> return that
  seed, and the result for any root finder is what it returns at that seed. At the seed
  the first two residuals are exactly zero.
\<close>

theorem solve_initial_guess_seed:
  "solve_pivot_points (\<lambda>F x0. Inr x0) h w d alpha g = Inr ((w / 2, h / 2), (w - d, h))
   \<and> solve_pivot_points fsolve h w d alpha g =
       (case fsolve (\<lambda>vars. equations vars h w d alpha g) [w / 2, h / 2, w - d, h] of
          Inl e \<Rightarrow> Inl e | Inr solution \<Rightarrow> unpack_solution solution)
   \<and> equations [w / 2, h / 2, w - d, h] h w d alpha g =
       Inr [0, 0, (w - d - w / 2)\<^sup>2 + (h - h / 2)\<^sup>2 - g\<^sup>2, h / 2 - h + d * tan (radians alpha)]"
  by (simp add: solve_pivot_points_def equations_four)

text \<open>
  Claim C5. Whenever the root finder returns a final iterate at which the solve has
  converged (every residual within the tolerance), \<open>solve_pivot_points\<close> returns a pivot
  pair whose \<open>y1\<close> is within the tolerance of \<open>h - d * tan (radians alpha)\<close>; for
  \<open>alpha = 0\<close> it is within the tolerance of \<open>h\<close>.
\<close>

theorem solve_angle_consistency:
  assumes "fsolve (\<lambda>vars. equations vars h w d alpha g) [w / 2, h / 2, w - d, h] = Inr solution"
      and "converged tol solution h w d alpha g"
  shows "\<exists>x1 y1 x2 y2.
           solve_pivot_points fsolve h w d alpha g = Inr ((x1, y1), (x2, y2))
           \<and> \<bar>y1 - (h - d * tan (radians alpha))\<bar> \<le> tol
           \<and> (alpha = 0 \<longrightarrow> \<bar>y1 - h\<bar> \<le> tol)"
proof -
  from assms(2) obtain r where r: "equations solution h w d alpha g = Inr r"
    by (auto simp add: converged_def split: sum.splits)
  then obtain x1 y1 x2 y2 where sol: "solution = [x1, y1, x2, y2]"
    using equations_Inr_length by blast
  have ret: "solve_pivot_points fsolve h w d alpha g = Inr ((x1, y1), (x2, y2))"
    using assms(1) sol by (simp add: solve_pivot_points_def)
  have "\<bar>y1 - h + d * tan (radians alpha)\<bar> \<le> tol"
    using assms(2) unfolding sol converged_def equations_four by simp
  then have dev: "\<bar>y1 - (h - d * tan (radians alpha))\<bar> \<le> tol"
    by (simp add: algebra_simps)
  then have "alpha = 0 \<longrightarrow> \<bar>y1 - h\<bar> \<le> tol"
    by (auto simp add: radians_zero)
  with ret dev show ?thesis by blast
qed

theorem solve_angle_consistency_witness:
  "(\<lambda>F x0. Inr [8, 10, 10, 10]) (\<lambda>vars. equations vars 10 15 5 0 2) [15 / 2, 10 / 2, 15 - 5, 10]
      = (Inr [8, 10, 10, 10] :: error + real list)
   \<and> converged (1 / 1000000) [8, 10, 10, 10] 10 15 5 0 2
   \<and> (\<exists>x1 y1 x2 y2.
         solve_pivot_points (\<lambda>F x0. Inr [8, 10, 10, 10]) 10 15 5 0 2 = Inr ((x1, y1), (x2, y2))
         \<and> \<bar>y1 - (10 - 5 * tan (radians 0))\<bar> \<le> 1 / 1000000
         \<and> ((0::real) = 0 \<longrightarrow> \<bar>y1 - 10\<bar> \<le> 1 / 1000000))"
proof -
  have c: "converged (1 / 1000000) [8, 10, 10, 10] 10 15 5 0 2"
    by (simp add: converged_def Let_def radians_def)
  have f: "(\<lambda>F x0. Inr [8, 10, 10, 10]) (\<lambda>vars. equations vars 10 15 5 0 2) [15 / 2, 10 / 2, 15 - 5, 10]
      = (Inr [8, 10, 10, 10] :: error + real list)"
    by simp
  from solve_angle_consistency [of "\<lambda>F x0. Inr [8, 10, 10, 10]" 10 15 5 0 2 "[8, 10, 10, 10]" "1 / 1000000", OF f c] c
  show ?thesis by simp
qed






end
